theory Spec2Isabelle
  imports Complex_Main
begin

section \<open>Python exceptions\<close>

text \<open>
  The module \<^verbatim>\<open>snowflake/connector/time_util.py\<close> raises and catches Python
  exceptions. An exception is modelled by its class and by the text that \<^verbatim>\<open>str(e)\<close>
  gives. The classes listed are the ones the module can meet: \<^verbatim>\<open>Exception\<close> itself
  (raised by \<^verbatim>\<open>TimeCNM.__int__\<close>), \<^verbatim>\<open>ValueError\<close> (raised by \<^verbatim>\<open>random.randint\<close>), other
  subclasses of \<^verbatim>\<open>Exception\<close>, and the three standard classes that derive from
  \<^verbatim>\<open>BaseException\<close> without deriving from \<^verbatim>\<open>Exception\<close>.
\<close>

datatype exc_class =
    Exception
  | ValueError
  | OtherException string
  | KeyboardInterrupt
  | SystemExit
  | GeneratorExit

datatype py_exc = Exc exc_class string

fun isinstance_Exception :: "py_exc \<Rightarrow> bool" where
  "isinstance_Exception (Exc Exception m) = True"
| "isinstance_Exception (Exc ValueError m) = True"
| "isinstance_Exception (Exc (OtherException c) m) = True"
| "isinstance_Exception (Exc KeyboardInterrupt m) = False"
| "isinstance_Exception (Exc SystemExit m) = False"
| "isinstance_Exception (Exc GeneratorExit m) = False"

fun str_exc :: "py_exc \<Rightarrow> string" where
  "str_exc (Exc c m) = m"

section \<open>DecorrelateJitterBackoff\<close>

text \<open>
  \<^verbatim>\<open>
  class DecorrelateJitterBackoff(object):
      def __init__(self, base, cap):
          self._base = base
          self._cap = cap

      def next_sleep(self, _, sleep):
          return min(self._cap, random.randint(self._base, sleep * 3))
  \<close>
  The fields \<^verbatim>\<open>_base\<close> and \<^verbatim>\<open>_cap\<close> are \<open>base\<close> and \<open>cap\<close> here (an Isabelle name
  cannot start with an underscore). \<^verbatim>\<open>random.randint\<close> takes integers, so the delays
  are Python integers, that is \<open>int\<close>.
\<close>

record DecorrelateJitterBackoff =
  base :: int
  cap :: int

text \<open>
  The constructor stores its two arguments and has no check and no \<^verbatim>\<open>raise\<close>; the result
  type has an error side only so that a failure could be stated.
\<close>

definition DecorrelateJitterBackoff_init :: "int \<Rightarrow> int \<Rightarrow> py_exc + DecorrelateJitterBackoff" where
  "DecorrelateJitterBackoff_init b c = Inr \<lparr>base = b, cap = c\<rparr>"

text \<open>
  \<^verbatim>\<open>random.randint(a, b)\<close> of the standard library is \<^verbatim>\<open>randrange(a, b + 1)\<close>, which
  computes \<^verbatim>\<open>width = b + 1 - a\<close>, returns \<^verbatim>\<open>a + self._randbelow(width)\<close> when
  \<^verbatim>\<open>width > 0\<close> and raises \<^verbatim>\<open>ValueError\<close> ("empty range for randrange()", followed by
  the arguments, which the model leaves out) otherwise. The generator is the parameter
  \<open>r\<close>: the raw natural number it draws on this call, which \<open>randbelow\<close> reduces below
  the width.
\<close>

definition randbelow :: "nat \<Rightarrow> int \<Rightarrow> int" where
  "randbelow r n = int r mod n"

definition randint :: "nat \<Rightarrow> int \<Rightarrow> int \<Rightarrow> py_exc + int" where
  "randint r a b =
     (let width = b + 1 - a
      in if 0 < width then Inr (a + randbelow r width)
         else Inl (Exc ValueError ''empty range for randrange()''))"

text \<open>
  \<open>next_sleep\<close>: the exception of \<^verbatim>\<open>random.randint\<close> is raised before \<^verbatim>\<open>min\<close> is applied
  and nothing in the method catches it. The first argument \<^verbatim>\<open>_\<close> may be any object.
\<close>

definition next_sleep :: "DecorrelateJitterBackoff \<Rightarrow> nat \<Rightarrow> 'a \<Rightarrow> int \<Rightarrow> py_exc + int" where
  "next_sleep self r uu sleep =
     (case randint r (base self) (sleep * 3) of
        Inl e \<Rightarrow> Inl e
      | Inr v \<Rightarrow> Inr (min (cap self) v))"

section \<open>HeartBeatTimer\<close>

text \<open>
  \<^verbatim>\<open>
  class HeartBeatTimer(Timer):
      def __init__(self, client_session_keep_alive_heartbeat_frequency, f):
          interval = client_session_keep_alive_heartbeat_frequency
          super(HeartBeatTimer, self).__init__(interval, f)

      def run(self):
          while not self.finished.is_set():
              self.finished.wait(self.interval)
              if not self.finished.is_set():
                  try:
                      self.function()
                  except Exception as e:
                      logger.debug("failed to heartbeat: %s", e)
  \<close>
  \<^verbatim>\<open>threading.Timer.__init__\<close> stores \<^verbatim>\<open>interval\<close> and \<^verbatim>\<open>function\<close> and creates the
  event \<^verbatim>\<open>finished\<close>, unset; \<^verbatim>\<open>Timer.cancel\<close> sets the event and nothing in the module
  clears it. The field \<^verbatim>\<open>function\<close> is \<open>callback\<close> here (\<open>function\<close> is a keyword);
  what the callback is stays abstract (the type \<open>'f\<close>). Next to the object's fields the
  record carries what the thread has done so far: the number of calls of the callback
  and the records handed to the module's logger.
\<close>

datatype log_level = DEBUG | INFO | WARNING | ERROR

record 'f HeartBeatTimer =
  interval :: real
  callback :: 'f
  finished :: bool
  invocations :: nat
  logged :: "(log_level \<times> string) list"

text \<open>Neither constructor checks the interval: there is no failing branch.\<close>

definition HeartBeatTimer_init :: "real \<Rightarrow> 'f \<Rightarrow> py_exc + 'f HeartBeatTimer" where
  "HeartBeatTimer_init client_session_keep_alive_heartbeat_frequency f =
     (let interval = client_session_keep_alive_heartbeat_frequency
      in Inr \<lparr>interval = interval, callback = f, finished = False,
              invocations = 0, logged = []\<rparr>)"

definition cancel :: "'f HeartBeatTimer \<Rightarrow> 'f HeartBeatTimer" where
  "cancel self = self\<lparr>finished := True\<rparr>"

text \<open>
  The loop runs beside the threads that may call \<^verbatim>\<open>cancel()\<close>, and the callback is
  arbitrary code. Both are the environment of \<open>run\<close>, given as a schedule with one entry
  for each pass through the loop body:
  \<^item> \<open>cancel_in_wait\<close>: \<^verbatim>\<open>cancel()\<close> takes effect after the test of the \<^verbatim>\<open>while\<close> and
    before the test of the \<^verbatim>\<open>if\<close> (it ends the wait early, or falls in the wait's
    timeout);
  \<^item> \<open>cancel_before_call\<close>: \<^verbatim>\<open>cancel()\<close> takes effect after the test of the \<^verbatim>\<open>if\<close> and
    before \<^verbatim>\<open>self.function()\<close> is entered (no lock is held between the two lines);
  \<^item> \<open>function_outcome\<close>: what \<^verbatim>\<open>self.function()\<close> does if it is called in this pass;
  \<^item> \<open>cancel_in_call\<close>: \<^verbatim>\<open>cancel()\<close> takes effect once the callback has been entered
    and before the next test of the \<^verbatim>\<open>while\<close> (from another thread or from the
    callback).
  The event is read only at the two tests, so the three windows cover every moment at
  which a cancellation can fall. A callback that never returns is not in the model.
\<close>

datatype outcome = Returns | Raises py_exc

record cycle =
  cancel_in_wait :: bool
  cancel_before_call :: bool
  function_outcome :: outcome
  cancel_in_call :: bool

definition wait :: "cycle \<Rightarrow> 'f HeartBeatTimer \<Rightarrow> 'f HeartBeatTimer" where
  "wait c self = (if cancel_in_wait c then cancel self else self)"

definition before_call :: "cycle \<Rightarrow> 'f HeartBeatTimer \<Rightarrow> 'f HeartBeatTimer" where
  "before_call c self = (if cancel_before_call c then cancel self else self)"

definition debug :: "string \<Rightarrow> 'f HeartBeatTimer \<Rightarrow> 'f HeartBeatTimer" where
  "debug msg self = self\<lparr>logged := logged self @ [(DEBUG, msg)]\<rparr>"

text \<open>
  The \<^verbatim>\<open>try\<close> statement: the callback is called, whatever the event is by now (the
  event is not read again before the call); an exception that is an instance of
  \<^verbatim>\<open>Exception\<close> is handled by the \<^verbatim>\<open>except\<close> clause, any other one leaves \<open>run\<close>.
\<close>

definition call_function :: "cycle \<Rightarrow> 'f HeartBeatTimer \<Rightarrow> py_exc + 'f HeartBeatTimer" where
  "call_function c self =
     (let called = self\<lparr>invocations := Suc (invocations self)\<rparr>;
          after = (if cancel_in_call c then cancel called else called)
      in case function_outcome c of
           Returns \<Rightarrow> Inr after
         | Raises e \<Rightarrow>
             if isinstance_Exception e
             then Inr (debug (''failed to heartbeat: '' @ str_exc e) after)
             else Inl e)"

text \<open>
  The loop may run for ever, so \<open>run\<close> is given a finite schedule: \<open>Exited\<close> when the
  \<^verbatim>\<open>while\<close> test ends the loop, \<open>Uncaught\<close> when an exception leaves \<open>run\<close>, and
  \<open>Waiting\<close> when the schedule is used up with the loop still alive.
\<close>

datatype 'f run_result =
    Exited "'f HeartBeatTimer"
  | Waiting "'f HeartBeatTimer"
  | Uncaught py_exc

fun run :: "cycle list \<Rightarrow> 'f HeartBeatTimer \<Rightarrow> 'f run_result" where
  "run [] self = (if finished self then Exited self else Waiting self)"
| "run (c # cs) self =
     (if finished self then Exited self
      else let woken = wait c self
           in if finished woken then run cs woken
              else (case call_function c (before_call c woken) of
                      Inl e \<Rightarrow> Uncaught e
                    | Inr self' \<Rightarrow> run cs self'))"

section \<open>TimeCNM\<close>

text \<open>
  \<^verbatim>\<open>
  class TimeCNM:
      def __init__(self):
          self._start: Optional[int] = None
          self._end: Optional[int] = None

      def __enter__(self) -> "TimeCNM":
          self._start = get_time_millis()
          return self

      def __exit__(self, exc_type, exc_val, exc_tb) -> None:
          self._end = get_time_millis()

      def __int__(self) -> int:
          if self._start is None or self._end is None:
              raise Exception("Trying to get timing before TimeCNM has finished")
          return self._end - self._start
  \<close>
  The fields \<^verbatim>\<open>_start\<close> and \<^verbatim>\<open>_end\<close> are \<open>start_t\<close> and \<open>end_t\<close>. \<^verbatim>\<open>get_time_millis()\<close> reads
  the wall clock through floating point (\<^verbatim>\<open>int(time.time() * 1000)\<close>); the integer it
  returns, a number of milliseconds, is the parameter \<open>now\<close> of the two methods that
  call it.
\<close>

record TimeCNM =
  start_t :: "int option"
  end_t :: "int option"

definition TimeCNM_init :: TimeCNM where
  "TimeCNM_init = \<lparr>start_t = None, end_t = None\<rparr>"

definition TimeCNM_enter :: "int \<Rightarrow> TimeCNM \<Rightarrow> TimeCNM" where
  "TimeCNM_enter now self = self\<lparr>start_t := Some now\<rparr>"

text \<open>
  \<^verbatim>\<open>__exit__\<close> has no \<^verbatim>\<open>return\<close>, so it returns \<^verbatim>\<open>None\<close> whatever the three arguments
  are; they are \<open>None\<close> here when the body raised nothing, and the exception otherwise.
\<close>

datatype py_value = PyNone | PyBool bool

fun truthy :: "py_value \<Rightarrow> bool" where
  "truthy PyNone = False"
| "truthy (PyBool b) = b"

definition TimeCNM_exit :: "int \<Rightarrow> py_exc option \<Rightarrow> TimeCNM \<Rightarrow> TimeCNM \<times> py_value" where
  "TimeCNM_exit now exc_val self = (self\<lparr>end_t := Some now\<rparr>, PyNone)"

definition TimeCNM_int :: "TimeCNM \<Rightarrow> py_exc + int" where
  "TimeCNM_int self =
     (if start_t self = None \<or> end_t self = None
      then Inl (Exc Exception ''Trying to get timing before TimeCNM has finished'')
      else Inr (the (end_t self) - the (start_t self)))"

text \<open>
  The statement \<^verbatim>\<open>with TimeCNM() as measured_time: body\<close>, as Python runs it:
  \<^verbatim>\<open>__enter__\<close> is called, then the body; \<^verbatim>\<open>__exit__\<close> is called on every path, and an
  exception of the body is raised again unless \<^verbatim>\<open>__exit__\<close> returned a true value.
\<close>

datatype 'a with_result = Completed 'a | Suppressed | Propagated py_exc

definition with_TimeCNM ::
  "int \<Rightarrow> int \<Rightarrow> (TimeCNM \<Rightarrow> py_exc + 'a) \<Rightarrow> TimeCNM \<times> 'a with_result" where
  "with_TimeCNM now_enter now_exit body =
     (let measured_time = TimeCNM_enter now_enter TimeCNM_init
      in case body measured_time of
           Inr v \<Rightarrow> (fst (TimeCNM_exit now_exit None measured_time), Completed v)
         | Inl e \<Rightarrow>
             (case TimeCNM_exit now_exit (Some e) measured_time of
                (t, ret) \<Rightarrow> (t, if truthy ret then Suppressed else Propagated e)))"

section \<open>Facts about the random draw\<close>

lemma randbelow_range: "0 < n \<Longrightarrow> 0 \<le> randbelow r n \<and> randbelow r n < n"
  by (simp add: randbelow_def)

lemma randint_in_range:
  assumes "a \<le> b"
  shows "\<exists>v. randint r a b = Inr v \<and> a \<le> v \<and> v \<le> b"
proof -
  have w: "0 < b + 1 - a" using assms by simp
  from randbelow_range [OF w, of r]
  have "a \<le> a + randbelow r (b + 1 - a)" and "a + randbelow r (b + 1 - a) \<le> b"
    by simp_all
  with w show ?thesis by (simp add: randint_def)
qed

lemma randint_empty:
  "b < a \<Longrightarrow> randint r a b = Inl (Exc ValueError ''empty range for randrange()'')"
  by (simp add: randint_def)

text \<open>Every integer of the closed interval is drawn for some raw value.\<close>

lemma randint_onto:
  assumes "a \<le> v" and "v \<le> b"
  shows "randint (nat (v - a)) a b = Inr v"
  using assms by (simp add: randint_def randbelow_def)

section \<open>Facts about the heartbeat loop\<close>



text \<open>
  The \<^verbatim>\<open>try\<close> statement of one pass, from the state after the test of the \<^verbatim>\<open>if\<close>.
\<close>

lemma call_function_Raises:
  assumes "function_outcome c = Raises e"
  shows "call_function c (before_call c self) =
           (if isinstance_Exception e
            then Inr (self\<lparr>invocations := Suc (invocations self),
                            finished := finished self \<or> cancel_before_call c \<or> cancel_in_call c,
                            logged := logged self @ [(DEBUG, ''failed to heartbeat: '' @ str_exc e)]\<rparr>)
            else Inl e)"
  using assms by (simp add: call_function_def before_call_def debug_def cancel_def Let_def)

lemma call_function_Returns:
  assumes "function_outcome c = Returns"
  shows "call_function c (before_call c self) =
           Inr (self\<lparr>invocations := Suc (invocations self),
                      finished := finished self \<or> cancel_before_call c \<or> cancel_in_call c\<rparr>)"
  using assms by (simp add: call_function_def before_call_def cancel_def Let_def)

text \<open>
  An exception leaves \<open>run\<close> only if some call of the callback raises one that is not an
  instance of \<^verbatim>\<open>Exception\<close>.
\<close>

lemma run_never_uncaught:
  assumes "\<forall>c \<in> set cs. \<forall>e. function_outcome c = Raises e \<longrightarrow> isinstance_Exception e"
  shows "run cs (self :: 'f HeartBeatTimer) \<noteq> Uncaught x"
  using assms
proof (induction cs arbitrary: self)
  case Nil
  then show ?case by simp
next
  case (Cons c cs)
  from Cons.prems
  have rest: "\<forall>c \<in> set cs. \<forall>e. function_outcome c = Raises e \<longrightarrow> isinstance_Exception e"
    by simp
  have ih: "\<And>s :: 'f HeartBeatTimer. run cs s \<noteq> Uncaught x"
    by (rule Cons.IH [OF rest])
  from Cons.prems have ok: "\<And>e. function_outcome c = Raises e \<Longrightarrow> isinstance_Exception e"
    by simp
  have "\<exists>s. call_function c (before_call c (wait c self)) = Inr s"
  proof (cases "function_outcome c")
    case Returns
    then show ?thesis by (simp add: call_function_Returns)
  next
    case (Raises e)
    with ok show ?thesis by (simp add: call_function_Raises)
  qed
  then obtain s where "call_function c (before_call c (wait c self)) = Inr s" by blast
  then show ?case using ih by (simp add: Let_def)
qed

text \<open>One pass of the loop in which the callback is called.\<close>

lemma run_step_Raises:
  assumes "\<not> finished self" and "\<not> cancel_in_wait c" and "function_outcome c = Raises e"
  shows "run (c # cs) self =
           (if isinstance_Exception e
            then run cs (self\<lparr>invocations := Suc (invocations self),
                              finished := cancel_before_call c \<or> cancel_in_call c,
                              logged := logged self @ [(DEBUG, ''failed to heartbeat: '' @ str_exc e)]\<rparr>)
            else Uncaught e)"
proof -
  have w: "wait c self = self" using assms(2) by (simp add: wait_def)
  show ?thesis using assms(1) w call_function_Raises [OF assms(3), of self] by simp
qed


text \<open>
  A callback that fails on every call is still called once in each of \<open>n\<close> wait cycles,
  and the loop is alive afterwards.
\<close>

lemma run_always_failing:
  assumes "\<not> cancel_in_wait c" and "\<not> cancel_before_call c" and "\<not> cancel_in_call c"
    and "function_outcome c = Raises e" and "isinstance_Exception e"
  shows "\<not> finished self \<Longrightarrow>
         run (replicate n c) self =
           Waiting (self\<lparr>invocations := invocations self + n,
                         logged := logged self @ replicate n (DEBUG, ''failed to heartbeat: '' @ str_exc e)\<rparr>)"
proof (induction n arbitrary: self)
  case 0
  then show ?case by simp
next
  case (Suc n)
  let ?s = "self\<lparr>invocations := Suc (invocations self),
                   logged := logged self @ [(DEBUG, ''failed to heartbeat: '' @ str_exc e)]\<rparr>"
  have "run (c # replicate n c) self =
          run (replicate n c) (self\<lparr>invocations := Suc (invocations self), finished := False,
                   logged := logged self @ [(DEBUG, ''failed to heartbeat: '' @ str_exc e)]\<rparr>)"
    using run_step_Raises [OF Suc.prems assms(1,4), of "replicate n c"] assms(2,3,5)
    by simp
  moreover have "self\<lparr>invocations := Suc (invocations self), finished := False,
                   logged := logged self @ [(DEBUG, ''failed to heartbeat: '' @ str_exc e)]\<rparr> = ?s"
    using Suc.prems by simp
  ultimately have step: "run (c # replicate n c) self = run (replicate n c) ?s" by simp
  have "\<not> finished ?s" using Suc.prems by simp
  from Suc.IH [OF this] step show ?case
    by (simp add: replicate_append_same)
qed

section \<open>DecorrelateJitterBackoff: the claims\<close>

text \<open>
  Claim C1 says that for \<open>0 \<le> base \<le> cap\<close> and \<open>previous_sleep \<ge> 0\<close> the method returns a
  value of the closed interval \<open>[base, cap]\<close>. The code does so exactly when the range
  handed to \<^verbatim>\<open>random.randint\<close> is not empty, that is when \<open>base \<le> previous_sleep * 3\<close>;
  otherwise \<^verbatim>\<open>random.randint\<close> raises \<^verbatim>\<open>ValueError\<close> and the method returns nothing.
  With \<open>base = 1\<close>, \<open>cap = 10\<close> and \<open>previous_sleep = 0\<close> the call is
  \<^verbatim>\<open>random.randint(1, 0)\<close>.
\<close>

theorem next_sleep_range_counterexample:
  "(0::int) \<le> 1 \<and> (1::int) \<le> 10 \<and> (0::int) \<le> 0 \<and>
   next_sleep \<lparr>base = 1, cap = 10\<rparr> 0 () 0 = Inl (Exc ValueError ''empty range for randrange()'')"
  by (simp add: next_sleep_def randint_def)

text \<open>
  C1 as amended: for \<open>0 \<le> base \<le> cap\<close> and \<open>previous_sleep \<ge> 0\<close>, \<open>next_sleep\<close> returns a
  value of \<open>[base, cap]\<close> when \<open>base \<le> previous_sleep * 3\<close>, and raises \<^verbatim>\<open>ValueError\<close>
  otherwise, whatever the generator draws.
\<close>

theorem next_sleep_in_range:
  assumes "0 \<le> base self" and "base self \<le> cap self" and "0 \<le> sleep"
  shows "if base self \<le> sleep * 3
         then \<exists>v. next_sleep self r uu sleep = Inr v \<and> base self \<le> v \<and> v \<le> cap self
         else next_sleep self r uu sleep = Inl (Exc ValueError ''empty range for randrange()'')"
proof (cases "base self \<le> sleep * 3")
  case True
  from randint_in_range [OF True, of r]
  obtain v where v: "randint r (base self) (sleep * 3) = Inr v" "base self \<le> v"
    by blast
  have "next_sleep self r uu sleep = Inr (min (cap self) v)"
    by (simp add: next_sleep_def v)
  moreover have "base self \<le> min (cap self) v" using assms(2) v(2) by simp
  moreover have "min (cap self) v \<le> cap self" by simp
  ultimately show ?thesis using True by simp
next
  case False
  then have "sleep * 3 < base self" by simp
  then show ?thesis using False by (simp add: next_sleep_def randint_empty)
qed

theorem next_sleep_in_range_witness:
  "(0::int) \<le> 1 \<and> (1::int) \<le> 10 \<and> (0::int) \<le> 2 \<and> (1::int) \<le> 2 * 3 \<and>
   (\<exists>v. next_sleep \<lparr>base = 1, cap = 10\<rparr> 4 () 2 = Inr v \<and> 1 \<le> v \<and> v \<le> 10)"
  using next_sleep_in_range [of "\<lparr>base = 1, cap = 10\<rparr>" 2 4 "()"] by simp

text \<open>
  Claim C2 says that \<open>next_sleep\<close> returns exactly \<open>base\<close> whenever
  \<open>previous_sleep * 3 \<le> base\<close>, the empty range being clamped. The method has no clamp:
  with \<open>base = 5\<close>, \<open>cap = 10\<close> and \<open>previous_sleep = 1\<close> the call is
  \<^verbatim>\<open>random.randint(5, 3)\<close>, which raises, and \<open>5\<close> is not returned.
\<close>

theorem next_sleep_degenerate_counterexample:
  "(0::int) \<le> 5 \<and> (5::int) \<le> 10 \<and> (1::int) * 3 \<le> 5 \<and>
   next_sleep \<lparr>base = 5, cap = 10\<rparr> 7 () 1 \<noteq> Inr 5"
  by (simp add: next_sleep_def randint_def)

text \<open>
  C2 as amended: for \<open>0 \<le> base \<le> cap\<close> and \<open>previous_sleep * 3 \<le> base\<close>, \<open>next_sleep\<close>
  returns exactly \<open>base\<close> when \<open>previous_sleep * 3 = base\<close> (the range has one element)
  and raises \<^verbatim>\<open>ValueError\<close> when \<open>previous_sleep * 3 < base\<close>.
\<close>

theorem next_sleep_degenerate:
  assumes "0 \<le> base self" and "base self \<le> cap self" and "sleep * 3 \<le> base self"
  shows "next_sleep self r uu sleep =
           (if sleep * 3 = base self then Inr (base self)
            else Inl (Exc ValueError ''empty range for randrange()''))"
proof (cases "sleep * 3 = base self")
  case True
  have "randint r (base self) (sleep * 3) = Inr (base self)"
    using True by (simp add: randint_def randbelow_def)
  then show ?thesis using True assms(2) by (simp add: next_sleep_def)
next
  case False
  with assms(3) have "sleep * 3 < base self" by simp
  then show ?thesis using False by (simp add: next_sleep_def randint_empty)
qed

theorem next_sleep_degenerate_witness:
  "(0::int) \<le> 3 \<and> (3::int) \<le> 10 \<and> (1::int) * 3 \<le> 3 \<and>
   next_sleep \<lparr>base = 3, cap = 10\<rparr> 7 () 1 = Inr 3"
  using next_sleep_degenerate [of "\<lparr>base = 3, cap = 10\<rparr>" 1 7 "()"] by simp

text \<open>
  Claim C3 says that the constructor fails with a configuration error when
  \<open>0 \<le> base \<le> cap\<close> is violated. The constructor has no check: with \<open>base = 5\<close> and
  \<open>cap = 1\<close> it returns an instance.
\<close>

theorem DecorrelateJitterBackoff_init_counterexample:
  "\<not> ((0::int) \<le> 5 \<and> (5::int) \<le> 1) \<and>
   DecorrelateJitterBackoff_init 5 1 = Inr \<lparr>base = 5, cap = 1\<rparr>"
  by (simp add: DecorrelateJitterBackoff_init_def)

text \<open>
  C3 as amended: for every \<open>base\<close> and \<open>cap\<close>, also those that violate
  \<open>0 \<le> base \<le> cap\<close>, the constructor succeeds and the instance holds the two
  arguments unchanged.
\<close>

theorem DecorrelateJitterBackoff_init_never_rejects:
  "DecorrelateJitterBackoff_init b c = Inr \<lparr>base = b, cap = c\<rparr>"
  by (simp add: DecorrelateJitterBackoff_init_def)

text \<open>
  Claim C9: the first argument of \<open>next_sleep\<close> has no influence. For the same instance,
  the same draw of the generator and the same \<open>previous_sleep\<close>, two calls that differ
  in the first argument (of any two types) give the same result, a value or the same
  exception.
\<close>

theorem next_sleep_first_argument_unused:
  "next_sleep self r (x :: 'a) sleep = next_sleep self r (y :: 'b) sleep"
  by (simp add: next_sleep_def)

section \<open>HeartBeatTimer: the claims\<close>

text \<open>
  Claim C8 says that the constructor fails with a configuration error when the interval
  is not positive. Neither \<^verbatim>\<open>HeartBeatTimer.__init__\<close> nor \<^verbatim>\<open>threading.Timer.__init__\<close>
  looks at the interval: with the interval \<open>-1\<close> an instance is returned.
\<close>

theorem HeartBeatTimer_init_counterexample:
  "(-1 :: real) \<le> 0 \<and>
   HeartBeatTimer_init (-1) () =
     Inr \<lparr>interval = -1, callback = (), finished = False, invocations = 0, logged = []\<rparr>"
  by (simp add: HeartBeatTimer_init_def)

text \<open>
  C8 as amended: for every interval, also zero and negative ones, the constructor
  succeeds and the instance holds the interval and the callback unchanged, with the
  event \<^verbatim>\<open>finished\<close> unset.
\<close>

theorem HeartBeatTimer_init_never_rejects:
  "HeartBeatTimer_init i f =
     Inr \<lparr>interval = i, callback = f, finished = False, invocations = 0, logged = []\<rparr>"
  by (simp add: HeartBeatTimer_init_def)

text \<open>
  Claim C4 says that whenever the callback raises an exception, the exception is caught
  and logged at debug level and the loop continues, so that a failing callback never
  ends the loop and never propagates. The handler is \<^verbatim>\<open>except Exception\<close>: an exception
  that is not an instance of \<^verbatim>\<open>Exception\<close> is not caught. With a callback that raises
  \<^verbatim>\<open>SystemExit\<close> in the first pass, the exception leaves \<open>run\<close>, nothing is logged and
  the second pass never happens.
\<close>

theorem run_callback_exception_counterexample:
  "\<not> finished \<lparr>interval = 1, callback = (), finished = False, invocations = 0, logged = []\<rparr> \<and>
   run [\<lparr>cancel_in_wait = False, cancel_before_call = False, function_outcome = Raises (Exc SystemExit ''1''), cancel_in_call = False\<rparr>,
        \<lparr>cancel_in_wait = False, cancel_before_call = False, function_outcome = Returns, cancel_in_call = False\<rparr>]
       \<lparr>interval = 1, callback = (), finished = False, invocations = 0, logged = []\<rparr> =
     Uncaught (Exc SystemExit ''1'')"
  by (simp add: wait_def before_call_def call_function_def)

text \<open>
  C4 as amended: in every pass of the loop in which the callback is called and raises an
  exception \<open>e\<close>, if \<open>e\<close> is an instance of \<^verbatim>\<open>Exception\<close> it is caught, one record
  \<^verbatim>\<open>failed to heartbeat: e\<close> is logged at debug level, the call is counted and the
  loop goes on with the next pass (first conjunct); a pass on its own leaves the loop
  alive, or ended by a cancellation only (second conjunct); and a callback that fails
  in each of \<open>n\<close> passes is called \<open>n\<close> times, with \<open>n\<close> records logged and the loop still
  alive (third conjunct). If \<open>e\<close> is not an instance of \<^verbatim>\<open>Exception\<close> (\<^verbatim>\<open>SystemExit\<close>,
  \<^verbatim>\<open>KeyboardInterrupt\<close>, \<^verbatim>\<open>GeneratorExit\<close>), it ends the loop and leaves \<open>run\<close>.
\<close>

theorem run_callback_exception:
  assumes "\<not> finished self" and "\<not> cancel_in_wait c" and "function_outcome c = Raises e"
  shows "run (c # cs) self =
           (if isinstance_Exception e
            then run cs (self\<lparr>invocations := Suc (invocations self),
                              finished := cancel_before_call c \<or> cancel_in_call c,
                              logged := logged self @ [(DEBUG, ''failed to heartbeat: '' @ str_exc e)]\<rparr>)
            else Uncaught e) \<and>
         run [c] self =
           (if isinstance_Exception e
            then (if cancel_before_call c \<or> cancel_in_call c then Exited else Waiting)
                   (self\<lparr>invocations := Suc (invocations self),
                          finished := cancel_before_call c \<or> cancel_in_call c,
                          logged := logged self @ [(DEBUG, ''failed to heartbeat: '' @ str_exc e)]\<rparr>)
            else Uncaught e) \<and>
         (isinstance_Exception e \<and> \<not> cancel_before_call c \<and> \<not> cancel_in_call c \<longrightarrow>
            run (replicate n c) self =
              Waiting (self\<lparr>invocations := invocations self + n,
                            logged := logged self @
                              replicate n (DEBUG, ''failed to heartbeat: '' @ str_exc e)\<rparr>))"
proof -
  note step = run_step_Raises [OF assms]
  have one: "run [c] self =
           (if isinstance_Exception e
            then (if cancel_before_call c \<or> cancel_in_call c then Exited else Waiting)
                   (self\<lparr>invocations := Suc (invocations self),
                          finished := cancel_before_call c \<or> cancel_in_call c,
                          logged := logged self @ [(DEBUG, ''failed to heartbeat: '' @ str_exc e)]\<rparr>)
            else Uncaught e)"
    using step [of "[]"] by simp
  have many: "isinstance_Exception e \<and> \<not> cancel_before_call c \<and> \<not> cancel_in_call c \<longrightarrow>
            run (replicate n c) self =
              Waiting (self\<lparr>invocations := invocations self + n,
                            logged := logged self @
                              replicate n (DEBUG, ''failed to heartbeat: '' @ str_exc e)\<rparr>)"
    using run_always_failing [OF assms(2) _ _ assms(3) _ assms(1), of n] by blast
  from step [of cs] one many show ?thesis by blast
qed

theorem run_callback_exception_witness:
  "\<not> finished \<lparr>interval = 1, callback = (), finished = False, invocations = 0, logged = []\<rparr> \<and>
   isinstance_Exception (Exc ValueError ''boom'') \<and>
   run [\<lparr>cancel_in_wait = False, cancel_before_call = False, function_outcome = Raises (Exc ValueError ''boom''), cancel_in_call = False\<rparr>,
        \<lparr>cancel_in_wait = False, cancel_before_call = False, function_outcome = Returns, cancel_in_call = False\<rparr>]
       \<lparr>interval = 1, callback = (), finished = False, invocations = 0, logged = []\<rparr> =
     Waiting \<lparr>interval = 1, callback = (), finished = False, invocations = 2, logged = [(DEBUG, ''failed to heartbeat: boom'')]\<rparr> \<and>
   run [\<lparr>cancel_in_wait = False, cancel_before_call = False, function_outcome = Raises (Exc ValueError ''boom''), cancel_in_call = False\<rparr>]
       \<lparr>interval = 1, callback = (), finished = False, invocations = 0, logged = []\<rparr> =
     Waiting \<lparr>interval = 1, callback = (), finished = False, invocations = 1, logged = [(DEBUG, ''failed to heartbeat: boom'')]\<rparr> \<and>
   run (replicate 2 \<lparr>cancel_in_wait = False, cancel_before_call = False, function_outcome = Raises (Exc ValueError ''boom''), cancel_in_call = False\<rparr>)
       \<lparr>interval = 1, callback = (), finished = False, invocations = 0, logged = []\<rparr> =
     Waiting \<lparr>interval = 1, callback = (), finished = False, invocations = 2, logged = [(DEBUG, ''failed to heartbeat: boom''), (DEBUG, ''failed to heartbeat: boom'')]\<rparr> \<and>
   \<not> isinstance_Exception (Exc KeyboardInterrupt []) \<and>
   run [\<lparr>cancel_in_wait = False, cancel_before_call = False, function_outcome = Raises (Exc KeyboardInterrupt []), cancel_in_call = False\<rparr>,
        \<lparr>cancel_in_wait = False, cancel_before_call = False, function_outcome = Returns, cancel_in_call = False\<rparr>]
       \<lparr>interval = 1, callback = (), finished = False, invocations = 0, logged = []\<rparr> =
     Uncaught (Exc KeyboardInterrupt [])"
  using run_callback_exception
    [of "\<lparr>interval = 1, callback = (), finished = False, invocations = 0, logged = []\<rparr>"
        "\<lparr>cancel_in_wait = False, cancel_before_call = False, function_outcome = Raises (Exc ValueError ''boom''), cancel_in_call = False\<rparr>"
        "Exc ValueError ''boom''"
        "[\<lparr>cancel_in_wait = False, cancel_before_call = False, function_outcome = Returns, cancel_in_call = False\<rparr>]" 2]
    run_callback_exception
    [of "\<lparr>interval = 1, callback = (), finished = False, invocations = 0, logged = []\<rparr>"
        "\<lparr>cancel_in_wait = False, cancel_before_call = False, function_outcome = Raises (Exc KeyboardInterrupt []), cancel_in_call = False\<rparr>"
        "Exc KeyboardInterrupt []"
        "[\<lparr>cancel_in_wait = False, cancel_before_call = False, function_outcome = Returns, cancel_in_call = False\<rparr>]" 0]
  by (simp add: wait_def before_call_def call_function_def numeral_2_eq_2)




section \<open>TimeCNM: the claims\<close>

text \<open>
  Claim C6: while the start or the end timestamp is unset, the conversion to an integer
  raises the exception "Trying to get timing before TimeCNM has finished" and returns
  no value.
\<close>

theorem TimeCNM_int_unfinished:
  assumes "start_t self = None \<or> end_t self = None"
  shows "TimeCNM_int self = Inl (Exc Exception ''Trying to get timing before TimeCNM has finished'')"
  using assms by (simp add: TimeCNM_int_def)

theorem TimeCNM_int_unfinished_witness:
  "end_t (TimeCNM_enter 5 TimeCNM_init) = None \<and>
   TimeCNM_int (TimeCNM_enter 5 TimeCNM_init) =
     Inl (Exc Exception ''Trying to get timing before TimeCNM has finished'') \<and>
   start_t TimeCNM_init = None \<and>
   TimeCNM_int TimeCNM_init =
     Inl (Exc Exception ''Trying to get timing before TimeCNM has finished'')"
  using TimeCNM_int_unfinished [of "TimeCNM_enter 5 TimeCNM_init"]
        TimeCNM_int_unfinished [of TimeCNM_init]
  by (simp add: TimeCNM_enter_def TimeCNM_init_def)

text \<open>
  Claim C7: entering the scope records the clock's reading as the start, leaving it
  records the reading as the end whether the body raised or not, and after both the
  conversion returns the end minus the start, in the clock's unit (milliseconds). The
  last conjunct is the same for a whole \<^verbatim>\<open>with\<close> statement, for every body.
\<close>

theorem TimeCNM_int_elapsed:
  "start_t (TimeCNM_enter now1 self) = Some now1 \<and>
   end_t (fst (TimeCNM_exit now2 exc_val self)) = Some now2 \<and>
   TimeCNM_int (fst (TimeCNM_exit now2 exc_val (TimeCNM_enter now1 self))) = Inr (now2 - now1) \<and>
   TimeCNM_int (fst (with_TimeCNM now1 now2 body)) = Inr (now2 - now1)"
proof -
  have a: "start_t (TimeCNM_enter now1 self) = Some now1"
    by (simp add: TimeCNM_enter_def)
  have b: "end_t (fst (TimeCNM_exit now2 exc_val self)) = Some now2"
    by (simp add: TimeCNM_exit_def)
  have c: "TimeCNM_int (fst (TimeCNM_exit now2 exc_val (TimeCNM_enter now1 self))) = Inr (now2 - now1)"
    by (simp add: TimeCNM_int_def TimeCNM_exit_def TimeCNM_enter_def)
  have d: "TimeCNM_int (fst (with_TimeCNM now1 now2 body)) = Inr (now2 - now1)"
    by (cases "body (TimeCNM_enter now1 TimeCNM_init)")
       (simp_all add: with_TimeCNM_def TimeCNM_int_def TimeCNM_exit_def TimeCNM_enter_def)
  from a b c d show ?thesis by simp
qed

text \<open>
  Claim C10: \<^verbatim>\<open>__exit__\<close> records the end timestamp and returns \<^verbatim>\<open>None\<close> whatever
  exception it is told of, so a \<^verbatim>\<open>with\<close> statement whose body raises \<open>e\<close> ends with \<open>e\<close>
  propagated, the two timestamps recorded.
\<close>

theorem TimeCNM_exit_never_suppresses:
  "TimeCNM_exit now exc_val self = (self\<lparr>end_t := Some now\<rparr>, PyNone) \<and>
   with_TimeCNM now1 now2 (\<lambda>measured_time. Inl e) =
     (\<lparr>start_t = Some now1, end_t = Some now2\<rparr>, Propagated e)"
  by (simp add: with_TimeCNM_def TimeCNM_exit_def TimeCNM_enter_def TimeCNM_init_def)

end
